theory Spec2Isabelle
  imports Complex_Main "HOL-Library.Sublist"
begin

text \<open>
  The client of DevSolver: the page \<^verbatim>\<open>pages/index.js\<close> (in the source tree
  \<^verbatim>\<open>src/unnamed/part_001\<close>), the query panel \<^verbatim>\<open>components/QueryPanel.js\<close>
  (\<^verbatim>\<open>src/unnamed/part_000\<close>), the code input panel
  \<^verbatim>\<open>components/CodeInputPanel.js\<close> (the second half of
  \<^verbatim>\<open>src/frontend/components/Notification.js\<close>, from line 141; line numbers are
  those of that file), the results panel, the notification component and the
  notification provider. Line numbers are those of the files of the source tree.
\<close>

section \<open>Notification channel\<close>

text \<open>
  \<^verbatim>\<open>frontend/components/Notification.js\<close>, lines 7-12: the four notification
  types. The source writes them as the strings \<^verbatim>\<open>'success'\<close>, \<^verbatim>\<open>'error'\<close>,
  \<^verbatim>\<open>'info'\<close> and \<^verbatim>\<open>'warning'\<close>.
\<close>

datatype notification_type = SUCCESS | ERROR | INFO | WARNING

text \<open>
  \<^verbatim>\<open>frontend/contexts/NotificationContext.js\<close>, line 15: an entry of the
  provider's list, \<^verbatim>\<open>{ id, type, message, duration }\<close>. The id is the value of
  \<^verbatim>\<open>Date.now()\<close>, a number of milliseconds; the duration is any number the caller
  passes, so it is an integer here (the component tests \<^verbatim>\<open>duration > 0\<close>).
\<close>

record notification =
  notif_id :: nat
  notif_type :: notification_type
  message :: string
  duration :: int

text \<open>
  \<^verbatim>\<open>addNotification(type, message, duration = 5000)\<close>, lines 13-17. The reading of
  the clock is the argument \<open>now\<close>; a duration that is not passed
  (\<^verbatim>\<open>undefined\<close>) is \<open>None\<close> and takes the default. The functional update
  \<^verbatim>\<open>prev => [...prev, {...}]\<close> is the first component, the returned id the second.
\<close>

definition addNotification ::
  "nat \<Rightarrow> notification_type \<Rightarrow> string \<Rightarrow> int option \<Rightarrow> notification list \<Rightarrow> notification list \<times> nat" where
  "addNotification now type msg dur prev =
     (let id' = now;
          d = (case dur of None \<Rightarrow> 5000 | Some x \<Rightarrow> x)
      in (prev @ [\<lparr>notif_id = id', notif_type = type, message = msg, duration = d\<rparr>], id'))"

text \<open>
  \<^verbatim>\<open>removeNotification(id)\<close>, lines 19-21:
  \<^verbatim>\<open>prev.filter(notification => notification.id !== id)\<close>.
\<close>

definition removeNotification :: "nat \<Rightarrow> notification list \<Rightarrow> notification list" where
  "removeNotification id' prev = filter (\<lambda>notification. notif_id notification \<noteq> id') prev"

text \<open>\<^verbatim>\<open>showSuccess\<close>, \<^verbatim>\<open>showError\<close>, \<^verbatim>\<open>showInfo\<close>, lines 23-30.\<close>

definition showSuccess :: "nat \<Rightarrow> string \<Rightarrow> int option \<Rightarrow> notification list \<Rightarrow> notification list" where
  "showSuccess now msg dur prev = fst (addNotification now SUCCESS msg dur prev)"

definition showError :: "nat \<Rightarrow> string \<Rightarrow> int option \<Rightarrow> notification list \<Rightarrow> notification list" where
  "showError now msg dur prev = fst (addNotification now ERROR msg dur prev)"

definition showInfo :: "nat \<Rightarrow> string \<Rightarrow> int option \<Rightarrow> notification list \<Rightarrow> notification list" where
  "showInfo now msg dur prev = fst (addNotification now INFO msg dur prev)"

section \<open>Data model of the query contract\<close>

text \<open>
  The structured GitHub reference built by \<^verbatim>\<open>handleGithubSubmit\<close>
  (\<^verbatim>\<open>{ owner, repo, branch, path }\<close>, CodeInputPanel.js); \<^verbatim>\<open>path\<close> is
  \<^verbatim>\<open>null\<close> when absent.
\<close>

record github_repo_ref =
  owner :: string
  repo :: string
  branch :: string
  path :: "string option"

text \<open>
  The source kinds: the only values the code passes to \<^verbatim>\<open>onSourceChange\<close> are the
  strings \<^verbatim>\<open>'snippet'\<close>, \<^verbatim>\<open>'github'\<close> and \<^verbatim>\<open>'file'\<close>.
\<close>

datatype source_kind = Snippet | Github | File

text \<open>\<^verbatim>\<open>codeData\<close> of \<^verbatim>\<open>pages/index.js\<close>, lines 15-20.\<close>

record code_data =
  code :: string
  language :: string
  source :: source_kind
  githubRepo :: "github_repo_ref option"

text \<open>
  The response of \<^verbatim>\<open>POST /query\<close> as \<^verbatim>\<open>ResultsPanel.js\<close> reads it: two optional
  solutions, an optional code analysis, the technology and the execution time.
\<close>

record reference_source =
  title :: string
  description :: "string option"
  url :: "string option"

record solution_result =
  answer :: string
  code_changes :: "string option"
  references :: "reference_source list"

datatype level = Low | Medium | High

record issue =
  issue_description :: string
  severity :: level
  line_number :: "nat option"

record suggestion =
  suggestion_description :: string
  benefit :: "string option"
  effort :: level

record analysis_details =
  code_structure :: "string option"
  best_practices :: "string option"
  additional_notes :: "string option"

record code_analysis_data =
  issues :: "issue list"
  suggestions :: "suggestion list"
  complexity_score :: real
  details :: "analysis_details option"

record query_response =
  official_solution :: "solution_result option"
  community_solution :: "solution_result option"
  code_analysis :: "code_analysis_data option"
  technology :: string
  execution_time :: real

text \<open>
  \<^verbatim>\<open>queryData\<close> of \<^verbatim>\<open>handleSubmit\<close>, \<^verbatim>\<open>pages/index.js\<close> lines 81-88. The fields
  \<^verbatim>\<open>source\<close>, \<^verbatim>\<open>technology\<close> and \<^verbatim>\<open>query\<close> carry the prefix \<open>req_\<close> here,
  because the client state and the response have fields of the same names.
\<close>

record query_request =
  req_source :: source_kind
  req_technology :: string
  code_snippet :: string
  github_repo :: "github_repo_ref option"
  req_query :: string
  response_source_preference :: string

text \<open>
  What \<^verbatim>\<open>submitQuery\<close> (\<^verbatim>\<open>utils/api.js\<close>, lines 18-33) throws: axios rejects on a
  transport failure and on a response whose status is not 2xx, and \<^verbatim>\<open>submitQuery\<close>
  rethrows.
\<close>

datatype submit_error = TransportError | ServerError nat

text \<open>
  What \<^verbatim>\<open>submitQuery\<close> returns on a 2xx answer: \<^verbatim>\<open>response.data\<close>, the parsed JSON
  body (\<^verbatim>\<open>utils/api.js\<close>, line 22). The body \<^verbatim>\<open>null\<close> has no properties, and reading
  one throws a \<^verbatim>\<open>TypeError\<close>; any other body is read as the response object, a field
  it lacks being \<^verbatim>\<open>undefined\<close>.
\<close>

datatype response_body = NullBody | ObjectBody query_response

section \<open>The page component (pages/index.js)\<close>

text \<open>
  The state of \<^verbatim>\<open>Home\<close>, lines 15-28, together with the list of the notification
  provider that \<^verbatim>\<open>showError\<close> and \<^verbatim>\<open>showSuccess\<close> update. \<^verbatim>\<open>results\<close> and
  \<^verbatim>\<open>codeAnalysis\<close> start as \<^verbatim>\<open>null\<close>.
\<close>

record client =
  codeData :: code_data
  query :: string
  results :: "query_response option"
  loading :: bool
  codeAnalysis :: "code_analysis_data option"
  activeTab :: string
  supportedTechnologies :: "string list"
  isDarkMode :: bool
  notifications :: "notification list"

definition initial_client :: client where
  "initial_client =
     \<lparr>codeData = \<lparr>code = [], language = ''python'', source = Snippet, githubRepo = None\<rparr>,
      query = [], results = None, loading = False, codeAnalysis = None,
      activeTab = ''official'', supportedTechnologies = [], isDarkMode = False,
      notifications = []\<rparr>"

text \<open>
  The handlers of lines 103-121. \<^verbatim>\<open>handleCodeChange\<close>, \<^verbatim>\<open>handleLanguageChange\<close> and
  \<^verbatim>\<open>handleSourceChange\<close> set \<^verbatim>\<open>{ ...codeData, field }\<close>, where \<^verbatim>\<open>codeData\<close> is the
  value the handler closed over when the page was rendered; it is their first argument.
  A handler called from an event of the current rendering gets the current value.
\<close>

definition handleCodeChange :: "code_data \<Rightarrow> string \<Rightarrow> client \<Rightarrow> client" where
  "handleCodeChange codeData' c s = s\<lparr>codeData := codeData'\<lparr>code := c\<rparr>\<rparr>"

definition handleLanguageChange :: "code_data \<Rightarrow> string \<Rightarrow> client \<Rightarrow> client" where
  "handleLanguageChange codeData' l s = s\<lparr>codeData := codeData'\<lparr>language := l\<rparr>\<rparr>"

definition handleSourceChange ::
  "code_data \<Rightarrow> source_kind \<Rightarrow> github_repo_ref option \<Rightarrow> client \<Rightarrow> client" where
  "handleSourceChange codeData' src gh s = s\<lparr>codeData := codeData'\<lparr>source := src, githubRepo := gh\<rparr>\<rparr>"

definition handleQueryChange :: "string \<Rightarrow> client \<Rightarrow> client" where
  "handleQueryChange v s = s\<lparr>query := v\<rparr>"

definition handleTabChange :: "string \<Rightarrow> client \<Rightarrow> client" where
  "handleTabChange tab s = s\<lparr>activeTab := tab\<rparr>"

definition toggleDarkMode :: "client \<Rightarrow> client" where
  "toggleDarkMode s = s\<lparr>isDarkMode := \<not> isDarkMode s\<rparr>"

text \<open>
  \<^verbatim>\<open>handleSubmit\<close>, lines 67-101, is an \<^verbatim>\<open>async\<close> function with one \<^verbatim>\<open>await\<close>.
  \<open>handleSubmit_begin\<close> is the part that runs before the \<^verbatim>\<open>await\<close>: the two
  checks, \<^verbatim>\<open>setLoading(true)\<close> and the call of \<^verbatim>\<open>submitQuery\<close>. Its second
  component is the request handed to \<^verbatim>\<open>submitQuery\<close>, \<open>None\<close> when the handler
  returned without calling it. JavaScript's \<^verbatim>\<open>!x\<close> on a string is \<open>x = []\<close>.
\<close>

definition handleSubmit_begin :: "nat \<Rightarrow> client \<Rightarrow> client \<times> query_request option" where
  "handleSubmit_begin now s =
     (if code (codeData s) = [] \<and> source (codeData s) = Snippet then
        (s\<lparr>notifications := showError now ''Please provide code to analyze'' None (notifications s)\<rparr>,
         None)
      else if query s = [] then
        (s\<lparr>notifications :=
             showError now ''Please enter a question about your code'' None (notifications s)\<rparr>,
         None)
      else
        (s\<lparr>loading := True\<rparr>,
         Some \<lparr>req_source = source (codeData s),
               req_technology = language (codeData s),
               code_snippet = code (codeData s),
               github_repo = githubRepo (codeData s),
               req_query = query s,
               response_source_preference = ''both''\<rparr>))"

text \<open>
  \<open>handleSubmit_resume\<close> is the part after the \<^verbatim>\<open>await\<close>, lines 90-100, run on the
  state of that moment: \<open>Inr data\<close> when \<^verbatim>\<open>submitQuery\<close> returned, \<open>Inl e\<close> when it
  threw (the \<^verbatim>\<open>catch\<close> branch); \<^verbatim>\<open>finally\<close> clears \<^verbatim>\<open>loading\<close> on every path.
  When the body is \<^verbatim>\<open>null\<close>, \<^verbatim>\<open>setResults(data)\<close> of line 91 runs, then
  \<^verbatim>\<open>data.code_analysis\<close> of line 92 throws inside the \<^verbatim>\<open>try\<close>, so
  \<^verbatim>\<open>setCodeAnalysis\<close> and \<^verbatim>\<open>showSuccess\<close> do not run and the \<^verbatim>\<open>catch\<close> branch
  shows the error.
\<close>

definition handleSubmit_resume :: "nat \<Rightarrow> submit_error + response_body \<Rightarrow> client \<Rightarrow> client" where
  "handleSubmit_resume now outcome s =
     (case outcome of
        Inr (ObjectBody data) \<Rightarrow>
          s\<lparr>results := Some data,
            codeAnalysis := code_analysis data,
            notifications :=
              showSuccess now
                ''Analysis complete! Showing results from both documentation and community sources.''
                None (notifications s),
            loading := False\<rparr>
      | Inr NullBody \<Rightarrow>
          s\<lparr>results := None,
            notifications :=
              showError now
                ''An error occurred while processing your request. Please try again.''
                None (notifications s),
            loading := False\<rparr>
      | Inl e \<Rightarrow>
          s\<lparr>notifications :=
              showError now
                ''An error occurred while processing your request. Please try again.''
                None (notifications s),
            loading := False\<rparr>)"

text \<open>
  The whole handler when nothing else happens in between: \<open>submitQuery\<close> is the
  answer of the network to a request, \<open>now\<close> and \<open>later\<close> the clock readings of the
  two parts.
\<close>

definition handleSubmit ::
  "(query_request \<Rightarrow> submit_error + response_body) \<Rightarrow> nat \<Rightarrow> nat \<Rightarrow> client \<Rightarrow> client" where
  "handleSubmit submitQuery now later s =
     (case handleSubmit_begin now s of
        (s', None) \<Rightarrow> s'
      | (s', Some queryData) \<Rightarrow> handleSubmit_resume later (submitQuery queryData) s')"

section \<open>The code input panel (components/CodeInputPanel.js)\<close>

text \<open>
  \<^verbatim>\<open>String.prototype.split\<close> with a one-character separator, and
  \<^verbatim>\<open>Array.prototype.join\<close>. The split of the empty string is the array holding
  the empty string.
\<close>

fun split_str :: "char \<Rightarrow> string \<Rightarrow> string list" where
  "split_str sep [] = [[]]"
| "split_str sep (c # cs) =
     (if c = sep then [] # split_str sep cs
      else (case split_str sep cs of [] \<Rightarrow> [[c]] | w # ws \<Rightarrow> (c # w) # ws))"

fun join_str :: "string \<Rightarrow> string list \<Rightarrow> string" where
  "join_str sep [] = []"
| "join_str sep [x] = x"
| "join_str sep (x # y # ys) = x @ sep @ join_str sep (y # ys)"

text \<open>
  The two properties of the platform's \<^verbatim>\<open>URL\<close> object that the handler reads. The
  constructor \<^verbatim>\<open>new URL(githubUrl)\<close> belongs to the browser, not to this repository:
  it is a parameter of the handler, \<open>None\<close> where it throws.
\<close>

record url =
  hostname :: string
  pathname :: string

text \<open>The local state of the panel that the handler reads and writes (lines 163-164).\<close>

record code_input_panel =
  githubUrl :: string
  showGithubInput :: bool

text \<open>
  \<^verbatim>\<open>url.pathname.split('/').filter(Boolean)\<close>, line 192: the non-empty segments.
\<close>

definition path_parts :: "string \<Rightarrow> string list" where
  "path_parts p = filter (\<lambda>x. x \<noteq> []) (split_str CHR ''/'' p)"

text \<open>
  \<^verbatim>\<open>handleGithubSubmit\<close>, lines 183-208. The result is the panel, the page (changed by
  \<^verbatim>\<open>onSourceChange\<close>, which is the page's \<^verbatim>\<open>handleSourceChange\<close>) and the messages
  passed to \<^verbatim>\<open>alert\<close>. The indexed reads \<^verbatim>\<open>parts[2]\<close> and \<^verbatim>\<open>parts[3]\<close> stand behind
  the length tests of the source.
\<close>

definition handleGithubSubmit ::
  "(string \<Rightarrow> url option) \<Rightarrow> code_input_panel \<Rightarrow> client \<Rightarrow> code_input_panel \<times> client \<times> string list" where
  "handleGithubSubmit URL p s =
     (case URL (githubUrl p) of
        None \<Rightarrow> (p, s, [''Please enter a valid GitHub URL''])
      | Some u \<Rightarrow>
          if hostname u \<noteq> ''github.com'' then (p, s, [''Please enter a valid GitHub URL''])
          else
            let parts = path_parts (pathname u) in
            if length parts < 2 then (p, s, [''Please enter a valid GitHub repository URL''])
            else
              let owner' = parts ! 0;
                  repo' = parts ! 1;
                  branch' = (if length parts > 3 \<and> parts ! 2 = ''tree'' then parts ! 3 else ''main'');
                  path' = (if length parts > 4 \<and> parts ! 2 = ''tree''
                           then Some (join_str ''/'' (drop 4 parts)) else None)
              in (p\<lparr>showGithubInput := False\<rparr>,
                  handleSourceChange (codeData s) Github
                    (Some \<lparr>owner = owner', repo = repo', branch = branch', path = path'\<rparr>) s,
                  []))"

text \<open>
  The result of \<^verbatim>\<open>handleGithubSubmit\<close> when it accepts the URL and builds the reference
  \<open>r\<close>: the input row is hidden, the page's source is \<^verbatim>\<open>'github'\<close> with \<open>r\<close>,
  the rest of \<^verbatim>\<open>codeData\<close> is kept, and no alert is shown.
\<close>

definition github_loaded ::
  "code_input_panel \<Rightarrow> client \<Rightarrow> github_repo_ref \<Rightarrow> code_input_panel \<times> client \<times> string list" where
  "github_loaded p s r =
     (p\<lparr>showGithubInput := False\<rparr>,
      s\<lparr>codeData := (codeData s)\<lparr>source := Github, githubRepo := Some r\<rparr>\<rparr>,
      [])"

text \<open>
  \<^verbatim>\<open>handleFileUpload\<close>, lines 210-220. The second argument is the text the
  \<^verbatim>\<open>FileReader\<close> delivers, \<open>None\<close> when no file was chosen. The callback
  \<^verbatim>\<open>reader.onload\<close> calls \<^verbatim>\<open>onCodeChange\<close> and then \<^verbatim>\<open>onSourceChange('file')\<close>;
  both are the handlers of the rendering in which the file was chosen, so both
  spread the \<^verbatim>\<open>codeData\<close> of that rendering (the first argument), and the second
  \<^verbatim>\<open>setCodeData\<close> replaces what the first one set: the state that results has the
  source \<^verbatim>\<open>'file'\<close> and the code and language of that rendering.
\<close>

definition handleFileUpload :: "code_data \<Rightarrow> string option \<Rightarrow> client \<Rightarrow> client" where
  "handleFileUpload codeData' file s =
     (case file of
        None \<Rightarrow> s
      | Some text \<Rightarrow>
          handleSourceChange codeData' File None (handleCodeChange codeData' text s))"

section \<open>The query panel (components/QueryPanel.js) and the requests in flight\<close>

text \<open>
  The submit button carries \<^verbatim>\<open>disabled={loading}\<close> (line 104); the form's
  \<^verbatim>\<open>onSubmit\<close> calls the page's \<^verbatim>\<open>handleSubmit\<close> (lines 18-21, 53).
\<close>

definition submit_disabled :: "client \<Rightarrow> bool" where
  "submit_disabled s = loading s"

text \<open>
  The client and the network: the page's state and the requests that
  \<^verbatim>\<open>submitQuery\<close> has sent and that are not answered yet.
\<close>

record system =
  ui :: client
  in_flight :: "query_request list"

definition initial_system :: system where
  "initial_system = \<lparr>ui = initial_client, in_flight = []\<rparr>"

text \<open>
  The events of the page. \<open>Mounted now prefersDark\<close> is the mount effect of lines
  32-52 (the colour scheme and the welcome message); \<open>TechnologiesLoaded\<close> and
  \<open>TechnologiesFailed\<close> are the two ends of its \<^verbatim>\<open>fetchTechnologies\<close>. \<open>Submit now\<close>
  is the user's submission of the form at clock reading \<open>now\<close>;
  \<open>Response i outcome now\<close> is the arrival of the answer to the \<open>i\<close>-th request in
  flight, which resumes the handler that awaits it. \<open>FileUpload file\<close> is the choice
  of a file whose text is delivered before anything else happens;
  \<open>FileDelivered chosen text\<close> is the delivery of the text of a file that was chosen
  in an earlier rendering, whose \<^verbatim>\<open>codeData\<close> was \<open>chosen\<close>. The other events call the
  handler of their name with the \<^verbatim>\<open>codeData\<close> of the current rendering.
\<close>

datatype event =
    Mounted nat bool
  | TechnologiesLoaded "string list"
  | TechnologiesFailed nat
  | CodeChange string
  | LanguageChange string
  | SourceChange source_kind "github_repo_ref option"
  | FileUpload "string option"
  | FileDelivered code_data string
  | QueryChange string
  | TabChange string
  | ToggleDarkMode
  | CloseNotification nat
  | Submit nat
  | Response nat "submit_error + response_body" nat

text \<open>
  One event. \<open>None\<close> means that the event cannot happen in the state: a submission
  while the button is disabled, an answer to a request that is not in flight.
\<close>

definition step :: "event \<Rightarrow> system \<Rightarrow> system option" where
  "step e s =
     (case e of
        Mounted now prefersDark \<Rightarrow>
          Some (s\<lparr>ui := (ui s)\<lparr>isDarkMode := prefersDark,
                    notifications :=
                      showInfo now
                        ''Welcome to DevSolver! Enter your code and ask a question to get started.''
                        (Some 7000) (notifications (ui s))\<rparr>\<rparr>)
      | TechnologiesLoaded technologies \<Rightarrow>
          Some (s\<lparr>ui := (ui s)\<lparr>supportedTechnologies := technologies\<rparr>\<rparr>)
      | TechnologiesFailed now \<Rightarrow>
          Some (s\<lparr>ui := (ui s)\<lparr>notifications :=
                      showError now ''Failed to load supported technologies'' None
                        (notifications (ui s))\<rparr>\<rparr>)
      | CodeChange c \<Rightarrow> Some (s\<lparr>ui := handleCodeChange (codeData (ui s)) c (ui s)\<rparr>)
      | LanguageChange l \<Rightarrow> Some (s\<lparr>ui := handleLanguageChange (codeData (ui s)) l (ui s)\<rparr>)
      | SourceChange src gh \<Rightarrow> Some (s\<lparr>ui := handleSourceChange (codeData (ui s)) src gh (ui s)\<rparr>)
      | FileUpload file \<Rightarrow> Some (s\<lparr>ui := handleFileUpload (codeData (ui s)) file (ui s)\<rparr>)
      | FileDelivered chosen text \<Rightarrow> Some (s\<lparr>ui := handleFileUpload chosen (Some text) (ui s)\<rparr>)
      | QueryChange v \<Rightarrow> Some (s\<lparr>ui := handleQueryChange v (ui s)\<rparr>)
      | TabChange tab \<Rightarrow> Some (s\<lparr>ui := handleTabChange tab (ui s)\<rparr>)
      | ToggleDarkMode \<Rightarrow> Some (s\<lparr>ui := toggleDarkMode (ui s)\<rparr>)
      | CloseNotification i \<Rightarrow>
          Some (s\<lparr>ui := (ui s)\<lparr>notifications := removeNotification i (notifications (ui s))\<rparr>\<rparr>)
      | Submit now \<Rightarrow>
          if submit_disabled (ui s) then None
          else (case handleSubmit_begin now (ui s) of
                  (u, None) \<Rightarrow> Some (s\<lparr>ui := u\<rparr>)
                | (u, Some queryData) \<Rightarrow> Some (s\<lparr>ui := u, in_flight := in_flight s @ [queryData]\<rparr>))
      | Response i outcome now \<Rightarrow>
          if i < length (in_flight s) then
            Some (s\<lparr>ui := handleSubmit_resume now outcome (ui s),
                    in_flight := take i (in_flight s) @ drop (Suc i) (in_flight s)\<rparr>)
          else None)"

fun run :: "event list \<Rightarrow> system \<Rightarrow> system option" where
  "run [] s = Some s"
| "run (e # es) s = (case step e s of None \<Rightarrow> None | Some s' \<Rightarrow> run es s')"

section \<open>The results panel (components/ResultsPanel.js)\<close>

text \<open>
  What the panel shows, without styling. \<^verbatim>\<open>renderSolution(solution, type)\<close>, lines
  212-372: the empty state with its two lines of text when the solution is absent,
  otherwise the heading, the answer, the code block of \<^verbatim>\<open>code_changes\<close>
  (\<^verbatim>\<open>solution.code_changes && renderCodeBlock(solution.code_changes, results.technology)\<close>,
  line 326) and the references (the section is shown when the list is non-empty).
\<close>

datatype solution_view =
    EmptyState string string
  | SolutionView string string "(string \<times> string) option" "reference_source list"

text \<open>
  \<^verbatim>\<open>renderCodeBlock(code, language)\<close>, lines 79-135: nothing for an empty code,
  otherwise the code with the language of the highlighter,
  \<^verbatim>\<open>language || 'javascript'\<close> (line 120).
\<close>

definition renderCodeBlock :: "string \<Rightarrow> string \<Rightarrow> (string \<times> string) option" where
  "renderCodeBlock code' language' =
     (if code' = [] then None
      else Some (code', if language' = [] then ''javascript'' else language'))"

definition renderSolution :: "query_response \<Rightarrow> solution_result option \<Rightarrow> string \<Rightarrow> solution_view" where
  "renderSolution results' solution type =
     (case solution of
        None \<Rightarrow>
          EmptyState (''No '' @ type @ '' solution available'')
            ''Try modifying your query or checking another tab''
      | Some sol \<Rightarrow>
          SolutionView
            (if type = ''official'' then ''Documentation Solution'' else ''Community Solution'')
            (answer sol)
            (case code_changes sol of
               None \<Rightarrow> None
             | Some c \<Rightarrow> if c = [] then None else renderCodeBlock c (technology results'))
            (references sol))"

text \<open>
  The panel, lines 137-733: the loading state first, then the state without results,
  then the tabs. Each of the three panes is rendered under its own test of
  \<^verbatim>\<open>activeTab\<close> (lines 679-713); \<^verbatim>\<open>renderCodeAnalysis\<close> renders nothing when there
  is no analysis (line 375). The footer is shown when \<^verbatim>\<open>execution_time\<close> is truthy
  (line 717); React prints the number of a falsy \<^verbatim>\<open>0 && ...\<close>.
\<close>

datatype pane = SolutionPane solution_view | AnalysisPane "code_analysis_data option"

datatype footer = ProcessedIn real | ZeroText

datatype panel_view = LoadingView | ReadyView | ResultsView "pane list" footer

definition ResultsPanel ::
  "query_response option \<Rightarrow> bool \<Rightarrow> string \<Rightarrow> code_analysis_data option \<Rightarrow> panel_view" where
  "ResultsPanel results' loading' activeTab' codeAnalysis' =
     (if loading' then LoadingView
      else case results' of
        None \<Rightarrow> ReadyView
      | Some r \<Rightarrow>
          ResultsView
            ((if activeTab' = ''official''
              then [SolutionPane (renderSolution r (official_solution r) ''official'')] else [])
             @ (if activeTab' = ''community''
                then [SolutionPane (renderSolution r (community_solution r) ''community'')] else [])
             @ (if activeTab' = ''analysis'' then [AnalysisPane codeAnalysis'] else []))
            (if execution_time r = 0 then ZeroText else ProcessedIn (execution_time r)))"

definition render_client :: "client \<Rightarrow> panel_view" where
  "render_client s = ResultsPanel (results s) (loading s) (activeTab s) (codeAnalysis s)"

section \<open>The notification component and its timers (components/Notification.js)\<close>

text \<open>
  A mounted \<^verbatim>\<open>Notification\<close>: its props, its \<^verbatim>\<open>isVisible\<close> state and the deadline of
  the pending auto-close timer (\<open>None\<close> when no timer is pending). Time is the clock
  reading in milliseconds.
\<close>

record mounted =
  props :: notification
  isVisible :: bool
  timer :: "nat option"

text \<open>
  The effect of lines 18-43: when \<^verbatim>\<open>duration > 0\<close> it starts
  \<^verbatim>\<open>setTimeout(..., duration)\<close>, whose deadline is the time of the call plus the
  delay; otherwise it starts nothing. Its cleanup clears the timer it started. The
  browser reads the delay of \<^verbatim>\<open>setTimeout\<close> as a signed 32-bit integer and takes a
  negative one as 0 (\<open>timeout_delay\<close>): a duration below \<open>2 ^ 31\<close> is its own delay.
\<close>

definition timeout_delay :: "int \<Rightarrow> nat" where
  "timeout_delay d = nat (max 0 ((d + 2 ^ 31) mod 2 ^ 32 - 2 ^ 31))"

definition effect_timer :: "nat \<Rightarrow> notification \<Rightarrow> nat option" where
  "effect_timer now n =
     (if duration n > 0 then Some (now + timeout_delay (duration n)) else None)"

text \<open>
  A rendering of the provider at time \<open>now\<close> (NotificationContext.js, lines 38-46).
  Every entry of the list is rendered with the key \<^verbatim>\<open>notification.id\<close>; a component
  whose key was mounted keeps its state, a new key mounts with \<^verbatim>\<open>isVisible = true\<close>, a
  key that is gone unmounts (its cleanup clears its timer). The prop
  \<^verbatim>\<open>onClose={() => removeNotification(notification.id)}\<close> is a new function at every
  rendering and it is one of the effect's dependencies, \<^verbatim>\<open>[duration, onClose]\<close> (line
  43): so at every rendering of the provider every mounted notification runs the
  cleanup and then the effect again.
\<close>

definition render_provider :: "nat \<Rightarrow> notification list \<Rightarrow> mounted list \<Rightarrow> mounted list" where
  "render_provider now ns ms =
     map (\<lambda>n. \<lparr>props = n,
                isVisible = (case find (\<lambda>m. notif_id (props m) = notif_id n) ms of
                               None \<Rightarrow> True
                             | Some m \<Rightarrow> isVisible m),
                timer = effect_timer now n\<rparr>) ns"

text \<open>
  The provider with its mounted children and the pending \<^verbatim>\<open>setTimeout(onClose, 300)\<close>
  calls (lines 23 and 47), each with its deadline and the id its \<^verbatim>\<open>onClose\<close> removes.
\<close>

record provider =
  entries :: "notification list"
  children :: "mounted list"
  closing :: "(nat \<times> nat) list"

definition initial_provider :: provider where
  "initial_provider = \<lparr>entries = [], children = [], closing = []\<rparr>"

text \<open>\<^verbatim>\<open>addNotification\<close> at time \<open>now\<close>, followed by the rendering its state update causes.\<close>

definition provider_add ::
  "nat \<Rightarrow> notification_type \<Rightarrow> string \<Rightarrow> int option \<Rightarrow> provider \<Rightarrow> provider" where
  "provider_add now type msg dur p =
     (let ns = fst (addNotification now type msg dur (entries p))
      in p\<lparr>entries := ns, children := render_provider now ns (children p)\<rparr>)"

text \<open>
  The auto-close timer of the notification with the given id fires at time \<open>now\<close>
  (lines 21-24): possible when its deadline has passed. It hides the notification and
  schedules \<^verbatim>\<open>onClose\<close> 300 ms later.
\<close>

definition timer_fires :: "nat \<Rightarrow> nat \<Rightarrow> provider \<Rightarrow> provider option" where
  "timer_fires now i p =
     (case find (\<lambda>m. notif_id (props m) = i) (children p) of
        None \<Rightarrow> None
      | Some m \<Rightarrow>
          (case timer m of
             None \<Rightarrow> None
           | Some deadline \<Rightarrow>
               if deadline \<le> now then
                 Some (p\<lparr>children :=
                          map (\<lambda>m. if notif_id (props m) = i
                                    then m\<lparr>isVisible := False, timer := None\<rparr> else m) (children p),
                        closing := closing p @ [(now + 300, i)]\<rparr>)
               else None))"

text \<open>\<^verbatim>\<open>handleClose\<close>, lines 45-48: the close button of the notification with the id.\<close>

definition handleClose :: "nat \<Rightarrow> nat \<Rightarrow> provider \<Rightarrow> provider" where
  "handleClose now i p =
     p\<lparr>children := map (\<lambda>m. if notif_id (props m) = i then m\<lparr>isVisible := False\<rparr> else m) (children p),
       closing := closing p @ [(now + 300, i)]\<rparr>"

text \<open>
  A scheduled \<^verbatim>\<open>onClose\<close> runs at time \<open>now\<close>: possible when its deadline has passed.
  It calls \<^verbatim>\<open>removeNotification\<close>, and the provider renders again.
\<close>

definition onClose_runs :: "nat \<Rightarrow> nat \<Rightarrow> provider \<Rightarrow> provider option" where
  "onClose_runs now k p =
     (if k < length (closing p) \<and> fst (closing p ! k) \<le> now then
        (let ns = removeNotification (snd (closing p ! k)) (entries p)
         in Some (p\<lparr>entries := ns,
                    children := render_provider now ns (children p),
                    closing := take k (closing p) @ drop (Suc k) (closing p)\<rparr>))
      else None)"

section \<open>Invariants of the requests in flight\<close>

text \<open>The invariant of the requests in flight.\<close>

definition one_in_flight :: "system \<Rightarrow> bool" where
  "one_in_flight s = (length (in_flight s) = (if loading (ui s) then 1 else 0))"

text \<open>Every request in flight asks for both pools.\<close>

definition all_both :: "system \<Rightarrow> bool" where
  "all_both s = list_all (\<lambda>q. response_source_preference q = ''both'') (in_flight s)"

section \<open>Concrete inputs\<close>

text \<open>
  What the browser's \<^verbatim>\<open>URL\<close> constructor returns on six strings (host and path of
  an \<^verbatim>\<open>https\<close> URL), and a stand-in for its throwing on every other string. It is
  used only as a concrete instance of the handler's parameter.
\<close>

definition URL_examples :: "string \<Rightarrow> url option" where
  "URL_examples s =
     (if s = ''https://github.com/acme/widgets''
        then Some \<lparr>hostname = ''github.com'', pathname = ''/acme/widgets''\<rparr>
      else if s = ''https://github.com/acme/widgets/tree/dev/src/lib''
        then Some \<lparr>hostname = ''github.com'', pathname = ''/acme/widgets/tree/dev/src/lib''\<rparr>
      else if s = ''https://github.com/acme/widgets/tree/dev''
        then Some \<lparr>hostname = ''github.com'', pathname = ''/acme/widgets/tree/dev''\<rparr>
      else if s = ''https://github.com/acme/widgets/issues/7''
        then Some \<lparr>hostname = ''github.com'', pathname = ''/acme/widgets/issues/7''\<rparr>
      else if s = ''https://gitlab.com/acme/widgets''
        then Some \<lparr>hostname = ''gitlab.com'', pathname = ''/acme/widgets''\<rparr>
      else if s = ''https://github.com/acme''
        then Some \<lparr>hostname = ''github.com'', pathname = ''/acme''\<rparr>
      else None)"

text \<open>A response with an official solution and a code analysis.\<close>

definition earlier_response :: query_response where
  "earlier_response =
     \<lparr>official_solution =
        Some \<lparr>answer = ''Bind the loop variable.'', code_changes = None, references = []\<rparr>,
      community_solution = None,
      code_analysis =
        Some \<lparr>issues =
                [\<lparr>issue_description = ''Unused variable'', severity = Low, line_number = Some 1\<rparr>],
              suggestions = [], complexity_score = 2, details = None\<rparr>,
      technology = ''python'',
      execution_time = 1\<rparr>"

text \<open>A response with an official solution and without a community solution.\<close>

definition example_response :: query_response where
  "example_response =
     \<lparr>official_solution =
        Some \<lparr>answer = ''Use a list comprehension.'', code_changes = Some ''ys = [f(x) for x in xs]'',
              references = [\<lparr>title = ''The Python Tutorial'', description = None,
                             url = Some ''https://docs.python.org/3/tutorial/''\<rparr>]\<rparr>,
      community_solution = None,
      code_analysis = None,
      technology = ''python'',
      execution_time = 2\<rparr>"

text \<open>
  The notifications of the page's first seconds (\<^verbatim>\<open>pages/index.js\<close>, lines 32-52): the
  welcome message, shown for 7000 ms at clock reading 1000, and the error of a failed
  \<^verbatim>\<open>getSupportedTechnologies\<close>, shown with the default duration at 3000.
\<close>

definition welcome_shown :: provider where
  "welcome_shown =
     provider_add 1000 INFO
       ''Welcome to DevSolver! Enter your code and ask a question to get started.''
       (Some 7000) initial_provider"

definition error_shown :: provider where
  "error_shown = provider_add 3000 ERROR ''Failed to load supported technologies'' None welcome_shown"

section \<open>Properties of the notification list\<close>

lemma removeNotification_Nil: "removeNotification i [] = []"
  by (simp add: removeNotification_def)

lemma removeNotification_Cons:
  "removeNotification i (n # ns) =
     (if notif_id n = i then removeNotification i ns else n # removeNotification i ns)"
  by (simp add: removeNotification_def)

lemma removeNotification_absent:
  "i \<notin> notif_id ` set ns \<Longrightarrow> removeNotification i ns = ns"
  by (induction ns) (auto simp: removeNotification_Nil removeNotification_Cons)

lemma removeNotification_none_left:
  "n \<in> set (removeNotification i ns) \<Longrightarrow> notif_id n \<noteq> i"
  by (simp add: removeNotification_def)

lemma removeNotification_others:
  "filter (\<lambda>n. notif_id n \<noteq> i) (removeNotification i ns) = filter (\<lambda>n. notif_id n \<noteq> i) ns"
  by (simp add: removeNotification_def)

lemma removeNotification_subseq: "subseq (removeNotification i ns) ns"
  by (simp add: removeNotification_def)

text \<open>
  Claim C7. Removing a notification by id deletes every entry that carries the id, keeps
  every other entry and their order (the result is a subsequence of the list in which
  the entries with another id are the same, in the same order), is idempotent, and
  changes nothing when no entry carries the id, in particular for an id that was
  removed before.
\<close>

theorem removeNotification_idempotent:
  "(\<forall>n \<in> set (removeNotification i ns). notif_id n \<noteq> i)
   \<and> filter (\<lambda>n. notif_id n \<noteq> i) (removeNotification i ns) = filter (\<lambda>n. notif_id n \<noteq> i) ns
   \<and> subseq (removeNotification i ns) ns
   \<and> removeNotification i (removeNotification i ns) = removeNotification i ns
   \<and> (i \<notin> notif_id ` set ns \<longrightarrow> removeNotification i ns = ns)
   \<and> i \<notin> notif_id ` set (removeNotification i ns)"
proof -
  have gone: "\<forall>n \<in> set (removeNotification i ns). notif_id n \<noteq> i"
    using removeNotification_none_left by blast
  then have absent: "i \<notin> notif_id ` set (removeNotification i ns)"
    by auto
  have again: "removeNotification i (removeNotification i ns) = removeNotification i ns"
    using absent by (rule removeNotification_absent)
  show ?thesis
    using gone absent again removeNotification_others [of i ns]
      removeNotification_subseq [of i ns] removeNotification_absent [of i ns]
    by blast
qed

theorem removeNotification_idempotent_witness:
  "removeNotification 3
     [\<lparr>notif_id = 1, notif_type = INFO, message = ''a'', duration = 7000\<rparr>,
      \<lparr>notif_id = 2, notif_type = ERROR, message = ''b'', duration = 5000\<rparr>,
      \<lparr>notif_id = 1, notif_type = SUCCESS, message = ''c'', duration = 0\<rparr>]
   = [\<lparr>notif_id = 1, notif_type = INFO, message = ''a'', duration = 7000\<rparr>,
      \<lparr>notif_id = 2, notif_type = ERROR, message = ''b'', duration = 5000\<rparr>,
      \<lparr>notif_id = 1, notif_type = SUCCESS, message = ''c'', duration = 0\<rparr>]
   \<and> (3::nat) \<notin> notif_id ` set
     [\<lparr>notif_id = 1, notif_type = INFO, message = ''a'', duration = 7000\<rparr>,
      \<lparr>notif_id = 2, notif_type = ERROR, message = ''b'', duration = 5000\<rparr>,
      \<lparr>notif_id = 1, notif_type = SUCCESS, message = ''c'', duration = 0\<rparr>]
   \<and> removeNotification 1
     [\<lparr>notif_id = 1, notif_type = INFO, message = ''a'', duration = 7000\<rparr>,
      \<lparr>notif_id = 2, notif_type = ERROR, message = ''b'', duration = 5000\<rparr>,
      \<lparr>notif_id = 1, notif_type = SUCCESS, message = ''c'', duration = 0\<rparr>]
   = [\<lparr>notif_id = 2, notif_type = ERROR, message = ''b'', duration = 5000\<rparr>]"
proof -
  let ?ns = "[\<lparr>notif_id = 1, notif_type = INFO, message = ''a'', duration = 7000\<rparr>,
      \<lparr>notif_id = 2, notif_type = ERROR, message = ''b'', duration = 5000\<rparr>,
      \<lparr>notif_id = 1, notif_type = SUCCESS, message = ''c'', duration = 0\<rparr>]"
  have absent: "(3::nat) \<notin> notif_id ` set ?ns"
    by simp
  have "removeNotification 3 ?ns = ?ns"
    using removeNotification_idempotent [of 3 ?ns] absent by blast
  moreover have "removeNotification 1 ?ns
      = [\<lparr>notif_id = 2, notif_type = ERROR, message = ''b'', duration = 5000\<rparr>]"
    by (simp add: removeNotification_def)
  ultimately show ?thesis
    using absent by simp
qed

section \<open>Properties of the notification timers\<close>

text \<open>
  A notification whose duration is not positive starts no timer; one whose duration is
  positive and below \<open>2 ^ 31\<close> starts a timer whose deadline lies that many
  milliseconds after the effect ran.
\<close>

lemma effect_timer_no_timer: "duration n \<le> 0 \<Longrightarrow> effect_timer now n = None"
  by (simp add: effect_timer_def)

lemma effect_timer_deadline:
  "0 < duration n \<Longrightarrow> duration n < 2 ^ 31 \<Longrightarrow>
   effect_timer now n = Some (now + nat (duration n))"
  by (simp add: effect_timer_def timeout_delay_def)

text \<open>
  Adding a notification renders the provider, and the rendering restarts the timer of
  every notification that is already shown: each deadline is counted from the time of
  the addition.
\<close>

lemma provider_add_restarts_timers:
  "map timer (children (provider_add now type msg dur p)) =
     map (effect_timer now) (entries p)
     @ [effect_timer now
          \<lparr>notif_id = now, notif_type = type, message = msg,
           duration = (case dur of None \<Rightarrow> 5000 | Some x \<Rightarrow> x)\<rparr>]"
  by (simp add: provider_add_def render_provider_def addNotification_def Let_def comp_def)

text \<open>
  Claim C6. The claim says that the countdown of a notification is independent of every
  other notification. On the page's first seconds it is not: the welcome message is
  shown at 1000 for 7000 ms, so alone its timer is due at 8000 and can fire then. When
  the error of the failed technology request is shown at 3000, the welcome message's
  timer is due at 10000 and cannot fire at 8000. When the error's own timer has fired at
  8000 and its removal has run at 8300, the welcome message is the only entry left and
  its timer is due at 15300.
\<close>

theorem welcome_timer_restarted_by_error:
  "map timer (children welcome_shown) = [Some 8000]
   \<and> timer_fires 8000 1000 welcome_shown \<noteq> None
   \<and> map timer (children error_shown) = [Some 10000, Some 8000]
   \<and> timer_fires 8000 1000 error_shown = None
   \<and> map_option (\<lambda>p. (map notif_id (entries p), map timer (children p)))
       (Option.bind (timer_fires 8000 3000 error_shown) (onClose_runs 8300 0))
     = Some ([1000], [Some 15300])"
  by (simp add: welcome_shown_def error_shown_def provider_add_def render_provider_def
      addNotification_def effect_timer_def timeout_delay_def initial_provider_def timer_fires_def
      onClose_runs_def removeNotification_def)

section \<open>Properties of the submit handler\<close>

lemma showError_eq:
  "showError now msg None prev =
     prev @ [\<lparr>notif_id = now, notif_type = ERROR, message = msg, duration = 5000\<rparr>]"
  by (simp add: showError_def addNotification_def)

lemma showSuccess_eq:
  "showSuccess now msg None prev =
     prev @ [\<lparr>notif_id = now, notif_type = SUCCESS, message = msg, duration = 5000\<rparr>]"
  by (simp add: showSuccess_def addNotification_def)

lemma handleSubmit_begin_reject_code:
  "code (codeData s) = [] \<Longrightarrow> source (codeData s) = Snippet \<Longrightarrow>
   handleSubmit_begin now s =
     (s\<lparr>notifications := notifications s @
          [\<lparr>notif_id = now, notif_type = ERROR, message = ''Please provide code to analyze'',
            duration = 5000\<rparr>]\<rparr>, None)"
  by (simp add: handleSubmit_begin_def showError_eq)

lemma handleSubmit_begin_reject_query:
  "\<not> (code (codeData s) = [] \<and> source (codeData s) = Snippet) \<Longrightarrow> query s = [] \<Longrightarrow>
   handleSubmit_begin now s =
     (s\<lparr>notifications := notifications s @
          [\<lparr>notif_id = now, notif_type = ERROR,
            message = ''Please enter a question about your code'', duration = 5000\<rparr>]\<rparr>, None)"
  by (auto simp: handleSubmit_begin_def showError_eq)

lemma handleSubmit_begin_send:
  "\<not> (code (codeData s) = [] \<and> source (codeData s) = Snippet) \<Longrightarrow> query s \<noteq> [] \<Longrightarrow>
   handleSubmit_begin now s =
     (s\<lparr>loading := True\<rparr>,
      Some \<lparr>req_source = source (codeData s), req_technology = language (codeData s),
            code_snippet = code (codeData s), github_repo = githubRepo (codeData s),
            req_query = query s, response_source_preference = ''both''\<rparr>)"
  by (auto simp: handleSubmit_begin_def)

lemma handleSubmit_begin_request:
  "handleSubmit_begin now u = (u', Some q) \<Longrightarrow>
   q = \<lparr>req_source = source (codeData u), req_technology = language (codeData u),
        code_snippet = code (codeData u), github_repo = githubRepo (codeData u),
        req_query = query u, response_source_preference = ''both''\<rparr>"
  by (auto simp: handleSubmit_begin_def split: if_splits)

text \<open>
  Claim C2. For every state of the page, the submit handler calls \<^verbatim>\<open>submitQuery\<close>
  exactly when the query is non-empty and it is not the case that the source is the
  snippet and the code is empty. When it does not, it has added one error notification
  to the list and changed nothing else, and the whole handler ends in that state
  whatever the network would have answered.
\<close>

theorem handleSubmit_network_call_iff:
  "(snd (handleSubmit_begin now s) \<noteq> None)
     = (query s \<noteq> [] \<and> \<not> (source (codeData s) = Snippet \<and> code (codeData s) = []))
   \<and> (snd (handleSubmit_begin now s) = None \<longrightarrow>
        (\<exists>msg. fst (handleSubmit_begin now s) =
           s\<lparr>notifications := notifications s @
              [\<lparr>notif_id = now, notif_type = ERROR, message = msg, duration = 5000\<rparr>]\<rparr>)
        \<and> (\<forall>submitQuery later.
             handleSubmit submitQuery now later s = fst (handleSubmit_begin now s)))"
proof (cases "code (codeData s) = [] \<and> source (codeData s) = Snippet")
  case True
  then show ?thesis
    using handleSubmit_begin_reject_code [of s now]
    by (auto simp: handleSubmit_def)
next
  case nocode: False
  show ?thesis
  proof (cases "query s = []")
    case True
    then show ?thesis
      using handleSubmit_begin_reject_query [OF nocode, of now]
      by (auto simp: handleSubmit_def)
  next
    case False
    then show ?thesis
      using handleSubmit_begin_send [OF nocode, of now] nocode
      by auto
  qed
qed

theorem handleSubmit_network_call_iff_witness:
  "snd (handleSubmit_begin 10 initial_client) = None
   \<and> fst (handleSubmit_begin 10 initial_client) =
       initial_client\<lparr>notifications :=
         [\<lparr>notif_id = 10, notif_type = ERROR, message = ''Please provide code to analyze'',
           duration = 5000\<rparr>]\<rparr>
   \<and> handleSubmit (\<lambda>q. Inl TransportError) 10 20 initial_client =
       initial_client\<lparr>notifications :=
         [\<lparr>notif_id = 10, notif_type = ERROR, message = ''Please provide code to analyze'',
           duration = 5000\<rparr>]\<rparr>
   \<and> snd (handleSubmit_begin 10
          (initial_client\<lparr>codeData :=
              \<lparr>code = ''x = 1'', language = ''python'', source = Snippet, githubRepo = None\<rparr>,
            query := ''why?''\<rparr>)) \<noteq> None"
proof -
  let ?s = "initial_client\<lparr>codeData :=
              \<lparr>code = ''x = 1'', language = ''python'', source = Snippet, githubRepo = None\<rparr>,
            query := ''why?''\<rparr>"
  have rejected: "snd (handleSubmit_begin 10 initial_client) = None"
    using handleSubmit_network_call_iff [of 10 initial_client]
    by (simp add: initial_client_def)
  have state: "fst (handleSubmit_begin 10 initial_client) =
       initial_client\<lparr>notifications :=
         [\<lparr>notif_id = 10, notif_type = ERROR, message = ''Please provide code to analyze'',
           duration = 5000\<rparr>]\<rparr>"
    by (simp add: handleSubmit_begin_def showError_eq initial_client_def)
  have whole: "handleSubmit (\<lambda>q. Inl TransportError) 10 20 initial_client =
      fst (handleSubmit_begin 10 initial_client)"
    using handleSubmit_network_call_iff [of 10 initial_client] rejected by blast
  have sent: "snd (handleSubmit_begin 10 ?s) \<noteq> None"
    using handleSubmit_network_call_iff [of 10 ?s]
    by (simp add: initial_client_def)
  show ?thesis
    using rejected state whole sent by simp
qed

text \<open>
  The three ways the awaited answer ends. When \<^verbatim>\<open>submitQuery\<close> throws, the handler
  leaves \<^verbatim>\<open>results\<close> and \<^verbatim>\<open>codeAnalysis\<close> as they were, adds an error notification,
  and the panel shows the earlier results again. When it returns a response object,
  \<^verbatim>\<open>results\<close> is that response and \<^verbatim>\<open>codeAnalysis\<close> is its analysis, with a success
  notification. When it returns \<^verbatim>\<open>null\<close>, \<^verbatim>\<open>results\<close> is \<^verbatim>\<open>null\<close>,
  \<^verbatim>\<open>codeAnalysis\<close> is what it was, and the notification is the error.
\<close>

lemma handleSubmit_resume_paths:
  "results (handleSubmit_resume now (Inl e) s) = results s
   \<and> codeAnalysis (handleSubmit_resume now (Inl e) s) = codeAnalysis s
   \<and> notifications (handleSubmit_resume now (Inl e) s) =
       notifications s @
       [\<lparr>notif_id = now, notif_type = ERROR,
         message = ''An error occurred while processing your request. Please try again.'',
         duration = 5000\<rparr>]
   \<and> render_client (handleSubmit_resume now (Inl e) s) =
       ResultsPanel (results s) False (activeTab s) (codeAnalysis s)
   \<and> results (handleSubmit_resume now (Inr (ObjectBody data)) s) = Some data
   \<and> codeAnalysis (handleSubmit_resume now (Inr (ObjectBody data)) s) = code_analysis data
   \<and> notifications (handleSubmit_resume now (Inr (ObjectBody data)) s) =
       notifications s @
       [\<lparr>notif_id = now, notif_type = SUCCESS,
         message =
           ''Analysis complete! Showing results from both documentation and community sources.'',
         duration = 5000\<rparr>]
   \<and> render_client (handleSubmit_resume now (Inr (ObjectBody data)) s) =
       ResultsPanel (Some data) False (activeTab s) (code_analysis data)
   \<and> results (handleSubmit_resume now (Inr NullBody) s) = None
   \<and> codeAnalysis (handleSubmit_resume now (Inr NullBody) s) = codeAnalysis s
   \<and> notifications (handleSubmit_resume now (Inr NullBody) s) =
       notifications s @
       [\<lparr>notif_id = now, notif_type = ERROR,
         message = ''An error occurred while processing your request. Please try again.'',
         duration = 5000\<rparr>]
   \<and> render_client (handleSubmit_resume now (Inr NullBody) s) = ReadyView"
  by (simp add: handleSubmit_resume_def showError_eq showSuccess_eq render_client_def
      ResultsPanel_def)

text \<open>
  Claim C3. The claim says that a submission that ends with the error notification
  leaves the displayed results untouched, and that one that succeeds replaces the whole
  earlier response. It fails when the server answers 2xx with the body \<^verbatim>\<open>null\<close>: a
  first submission is answered at 15 with a response that has a code analysis and is
  displayed; a second one, sent at 20, is answered at 25 with \<^verbatim>\<open>null\<close>. After it the
  earlier results are gone (the panel shows its state without results), the code
  analysis of the earlier response is still in the state, and the notification that
  was added is the error.
\<close>

theorem null_body_wipes_results:
  "map_option (\<lambda>s. (results (ui s), codeAnalysis (ui s), render_client (ui s)))
     (run [CodeChange ''x = 1'', QueryChange ''why?'', Submit 10,
           Response 0 (Inr (ObjectBody earlier_response)) 15,
           Submit 20] initial_system)
     = Some (Some earlier_response, code_analysis earlier_response, LoadingView)
   \<and> map_option
       (\<lambda>s. (results (ui s), codeAnalysis (ui s), map notif_type (notifications (ui s)),
             render_client (ui s), in_flight s))
       (run [CodeChange ''x = 1'', QueryChange ''why?'', Submit 10,
             Response 0 (Inr (ObjectBody earlier_response)) 15,
             Submit 20,
             Response 0 (Inr NullBody) 25] initial_system)
     = Some (None, code_analysis earlier_response, [SUCCESS, ERROR], ReadyView, [])
   \<and> code_analysis earlier_response \<noteq> None"
  by (simp add: step_def initial_system_def initial_client_def handleCodeChange_def
      handleQueryChange_def submit_disabled_def handleSubmit_begin_def handleSubmit_resume_def
      showError_eq showSuccess_eq render_client_def ResultsPanel_def earlier_response_def)

text \<open>
  Claim C8, as the claim states it, fails for the source kind \<^verbatim>\<open>file\<close>: after an empty
  file was uploaded on the initial page and a question was typed, the submission is not
  rejected; the request in flight has the source \<^verbatim>\<open>file\<close> and an empty
  \<^verbatim>\<open>code_snippet\<close>.
\<close>

theorem file_source_empty_code_is_submitted:
  "run [FileUpload (Some []), QueryChange ''why?'', Submit 10] initial_system =
     Some \<lparr>ui = initial_client\<lparr>codeData :=
                  \<lparr>code = [], language = ''python'', source = File, githubRepo = None\<rparr>,
                query := ''why?'', loading := True\<rparr>,
           in_flight =
             [\<lparr>req_source = File, req_technology = ''python'', code_snippet = [],
               github_repo = None, req_query = ''why?'', response_source_preference = ''both''\<rparr>]\<rparr>"
  by (simp add: step_def initial_system_def initial_client_def handleFileUpload_def
      handleCodeChange_def handleSourceChange_def handleQueryChange_def submit_disabled_def
      handleSubmit_begin_def)

text \<open>
  Claim C8, amended. The client requires a non-empty \<^verbatim>\<open>code_snippet\<close> only when the
  source is the snippet: then a request with empty code is rejected with the
  notification \<^verbatim>\<open>Please provide code to analyze\<close> and no request is sent. For every
  other source kind, \<^verbatim>\<open>file\<close> included, a non-empty query is all the handler
  asks for: the request is sent with the code as it is, empty or not.
\<close>

theorem code_required_for_snippet_only:
  "(source (codeData s) = Snippet \<and> code (codeData s) = [] \<longrightarrow>
      handleSubmit_begin now s =
        (s\<lparr>notifications := notifications s @
             [\<lparr>notif_id = now, notif_type = ERROR, message = ''Please provide code to analyze'',
               duration = 5000\<rparr>]\<rparr>, None))
   \<and> (source (codeData s) \<noteq> Snippet \<and> query s \<noteq> [] \<longrightarrow>
      handleSubmit_begin now s =
        (s\<lparr>loading := True\<rparr>,
         Some \<lparr>req_source = source (codeData s), req_technology = language (codeData s),
               code_snippet = code (codeData s), github_repo = githubRepo (codeData s),
               req_query = query s, response_source_preference = ''both''\<rparr>))"
  using handleSubmit_begin_reject_code [of s now] handleSubmit_begin_send [of s now]
  by blast

theorem code_required_for_snippet_only_witness:
  "handleSubmit_begin 10 (initial_client\<lparr>query := ''why?''\<rparr>) =
     (initial_client\<lparr>query := ''why?'', notifications :=
        [\<lparr>notif_id = 10, notif_type = ERROR, message = ''Please provide code to analyze'',
          duration = 5000\<rparr>]\<rparr>, None)
   \<and> handleSubmit_begin 10
       (initial_client\<lparr>codeData :=
           \<lparr>code = [], language = ''python'', source = File, githubRepo = None\<rparr>,
         query := ''why?''\<rparr>) =
     (initial_client\<lparr>codeData :=
           \<lparr>code = [], language = ''python'', source = File, githubRepo = None\<rparr>,
         query := ''why?'', loading := True\<rparr>,
      Some \<lparr>req_source = File, req_technology = ''python'', code_snippet = [],
            github_repo = None, req_query = ''why?'', response_source_preference = ''both''\<rparr>)"
proof -
  let ?a = "initial_client\<lparr>query := ''why?''\<rparr>"
  let ?b = "initial_client\<lparr>codeData :=
           \<lparr>code = [], language = ''python'', source = File, githubRepo = None\<rparr>,
         query := ''why?''\<rparr>"
  have a: "source (codeData ?a) = Snippet \<and> code (codeData ?a) = []"
    by (simp add: initial_client_def)
  have b: "source (codeData ?b) \<noteq> Snippet \<and> query ?b \<noteq> []"
    by (simp add: initial_client_def)
  have "handleSubmit_begin 10 ?a =
        (?a\<lparr>notifications := notifications ?a @
             [\<lparr>notif_id = 10, notif_type = ERROR, message = ''Please provide code to analyze'',
               duration = 5000\<rparr>]\<rparr>, None)"
    using code_required_for_snippet_only [of ?a 10] a by blast
  moreover have "handleSubmit_begin 10 ?b =
        (?b\<lparr>loading := True\<rparr>,
         Some \<lparr>req_source = source (codeData ?b), req_technology = language (codeData ?b),
               code_snippet = code (codeData ?b), github_repo = githubRepo (codeData ?b),
               req_query = query ?b, response_source_preference = ''both''\<rparr>)"
    using code_required_for_snippet_only [of ?b 10] b by blast
  ultimately show ?thesis
    by (simp add: initial_client_def)
qed

section \<open>Properties of the requests in flight\<close>

lemma handleSubmit_begin_loading:
  "handleSubmit_begin now u = (u', None) \<Longrightarrow> loading u' = loading u"
  "handleSubmit_begin now u = (u', Some q) \<Longrightarrow> loading u'"
  by (auto simp: handleSubmit_begin_def split: if_splits)

lemma step_one_in_flight:
  assumes "one_in_flight s" and "step e s = Some s'"
  shows "one_in_flight s'"
proof (cases e)
  case (Submit now)
  with assms(2) have enabled: "\<not> loading (ui s)"
    by (auto simp: step_def submit_disabled_def split: if_splits)
  with assms(1) have empty: "in_flight s = []"
    by (simp add: one_in_flight_def)
  show ?thesis
  proof (cases "handleSubmit_begin now (ui s)")
    case (Pair u r)
    then show ?thesis
      using assms(2) Submit enabled empty handleSubmit_begin_loading [of now "ui s" u]
      by (cases r) (auto simp: step_def submit_disabled_def one_in_flight_def)
  qed
next
  case (Response i outcome now)
  with assms(2) have i: "i < length (in_flight s)"
    by (auto simp: step_def split: if_splits)
  with assms(1) have one: "length (in_flight s) = 1" "i = 0"
    by (auto simp: one_in_flight_def split: if_splits)
  then obtain q where q: "in_flight s = [q]"
    by (cases "in_flight s") auto
  have "loading (handleSubmit_resume now outcome (ui s)) = False"
    by (simp add: handleSubmit_resume_def split: sum.split response_body.split)
  then show ?thesis
    using assms(2) Response i one q by (auto simp: step_def one_in_flight_def)
qed (use assms in \<open>auto simp: step_def one_in_flight_def handleCodeChange_def
      handleLanguageChange_def handleSourceChange_def handleFileUpload_def
      handleQueryChange_def handleTabChange_def toggleDarkMode_def split: option.splits\<close>)

lemma run_one_in_flight:
  "run es s = Some s' \<Longrightarrow> one_in_flight s \<Longrightarrow> one_in_flight s'"
proof (induction es arbitrary: s)
  case Nil
  then show ?case by simp
next
  case (Cons e es)
  then obtain t where t: "step e s = Some t" "run es t = Some s'"
    by (auto split: option.splits)
  from Cons.prems(2) t(1) have "one_in_flight t"
    by (rule step_one_in_flight)
  with Cons.IH t(2) show ?case .
qed

lemma one_in_flight_initial: "one_in_flight initial_system"
  by (simp add: one_in_flight_def initial_system_def initial_client_def)

text \<open>
  Claim C4. In every state the client reaches from the initial page, at most one request
  is in flight, and one is in flight exactly while \<^verbatim>\<open>loading\<close> is true; the submit
  button is disabled exactly while \<^verbatim>\<open>loading\<close> is true, and then no submission can
  happen.
\<close>

theorem at_most_one_in_flight:
  assumes "run es initial_system = Some s"
  shows "length (in_flight s) \<le> 1
         \<and> loading (ui s) = (in_flight s \<noteq> [])
         \<and> submit_disabled (ui s) = loading (ui s)
         \<and> (loading (ui s) \<longrightarrow> (\<forall>now. step (Submit now) s = None))"
proof -
  have "one_in_flight s"
    using assms one_in_flight_initial by (rule run_one_in_flight)
  then show ?thesis
    by (auto simp: one_in_flight_def step_def submit_disabled_def split: if_splits)
qed

theorem at_most_one_in_flight_witness:
  "\<exists>s. run [CodeChange ''x = 1'', QueryChange ''why?'', Submit 10] initial_system = Some s
       \<and> in_flight s =
           [\<lparr>req_source = Snippet, req_technology = ''python'', code_snippet = ''x = 1'',
             github_repo = None, req_query = ''why?'', response_source_preference = ''both''\<rparr>]
       \<and> length (in_flight s) \<le> 1 \<and> loading (ui s) \<and> step (Submit 11) s = None"
proof -
  let ?es = "[CodeChange ''x = 1'', QueryChange ''why?'', Submit 10]"
  let ?s = "\<lparr>ui = initial_client\<lparr>codeData :=
                 \<lparr>code = ''x = 1'', language = ''python'', source = Snippet, githubRepo = None\<rparr>,
               query := ''why?'', loading := True\<rparr>,
             in_flight =
               [\<lparr>req_source = Snippet, req_technology = ''python'', code_snippet = ''x = 1'',
                 github_repo = None, req_query = ''why?'',
                 response_source_preference = ''both''\<rparr>]\<rparr>"
  have r: "run ?es initial_system = Some ?s"
    by (simp add: step_def initial_system_def initial_client_def handleCodeChange_def
        handleQueryChange_def submit_disabled_def handleSubmit_begin_def)
  from at_most_one_in_flight [OF r]
  have "length (in_flight ?s) \<le> 1" "loading (ui ?s) = (in_flight ?s \<noteq> [])"
    "loading (ui ?s) \<longrightarrow> (\<forall>now. step (Submit now) ?s = None)"
    by blast+
  then have "length (in_flight ?s) \<le> 1 \<and> loading (ui ?s) \<and> step (Submit 11) ?s = None"
    by simp
  with r show ?thesis
    by (intro exI [of _ ?s]) simp
qed

text \<open>
  Claim C9. A change of tab sets \<^verbatim>\<open>activeTab\<close> and nothing else: the results, the
  code analysis, the loading flag, the code data, the query and the notifications are
  the same, and the requests in flight are the same, so no request is sent.
\<close>

theorem handleTabChange_only_active_tab:
  "activeTab (handleTabChange tab s) = tab
   \<and> results (handleTabChange tab s) = results s
   \<and> codeAnalysis (handleTabChange tab s) = codeAnalysis s
   \<and> loading (handleTabChange tab s) = loading s
   \<and> codeData (handleTabChange tab s) = codeData s
   \<and> query (handleTabChange tab s) = query s
   \<and> notifications (handleTabChange tab s) = notifications s
   \<and> handleTabChange tab s = s\<lparr>activeTab := tab\<rparr>
   \<and> step (TabChange tab) sys = Some (sys\<lparr>ui := (ui sys)\<lparr>activeTab := tab\<rparr>\<rparr>)
   \<and> map_option in_flight (step (TabChange tab) sys) = Some (in_flight sys)"
  by (simp add: handleTabChange_def step_def)

lemma step_all_both:
  assumes "all_both s" and "step e s = Some s'"
  shows "all_both s'"
proof (cases e)
  case (Submit now)
  show ?thesis
  proof (cases "handleSubmit_begin now (ui s)")
    case (Pair u r)
    then show ?thesis
      using assms Submit handleSubmit_begin_request [of now "ui s" u]
      by (cases r) (auto simp: step_def all_both_def split: if_splits)
  qed
next
  case (Response i outcome now)
  then have "set (in_flight s') \<subseteq> set (in_flight s)"
    using assms(2) by (auto simp: step_def split: if_splits dest: in_set_takeD in_set_dropD)
  then show ?thesis
    using assms(1) by (auto simp: all_both_def list_all_iff)
qed (use assms in \<open>auto simp: step_def all_both_def\<close>)

lemma run_all_both:
  "run es s = Some s' \<Longrightarrow> all_both s \<Longrightarrow> all_both s'"
proof (induction es arbitrary: s)
  case Nil
  then show ?case by simp
next
  case (Cons e es)
  then obtain t where t: "step e s = Some t" "run es t = Some s'"
    by (auto split: option.splits)
  from Cons.prems(2) t(1) have "all_both t"
    by (rule step_all_both)
  with Cons.IH t(2) show ?case .
qed

text \<open>
  Claim C10. Every request the submit handler hands to \<^verbatim>\<open>submitQuery\<close> has the
  preference \<^verbatim>\<open>both\<close> (so neither \<^verbatim>\<open>official\<close> nor \<^verbatim>\<open>community\<close>), the
  selected language as its technology, and the source, code, GitHub reference and query
  of the page; and every request in flight in a reachable state has the preference
  \<^verbatim>\<open>both\<close>.
\<close>

theorem submitted_request_asks_both:
  "(handleSubmit_begin now s = (s', Some q) \<longrightarrow>
      response_source_preference q = ''both''
      \<and> response_source_preference q \<noteq> ''official''
      \<and> response_source_preference q \<noteq> ''community''
      \<and> req_technology q = language (codeData s)
      \<and> req_source q = source (codeData s)
      \<and> code_snippet q = code (codeData s)
      \<and> github_repo q = githubRepo (codeData s)
      \<and> req_query q = query s)
   \<and> (run es initial_system = Some sys \<longrightarrow>
        (\<forall>r \<in> set (in_flight sys). response_source_preference r = ''both''))"
proof -
  have "all_both initial_system"
    by (simp add: all_both_def initial_system_def)
  then have "run es initial_system = Some sys \<Longrightarrow> all_both sys"
    by (rule run_all_both [rotated])
  then show ?thesis
    using handleSubmit_begin_request [of now s s' q]
    by (auto simp: all_both_def list_all_iff)
qed

theorem submitted_request_asks_both_witness:
  "handleSubmit_begin 10
      (initial_client\<lparr>codeData :=
          \<lparr>code = ''x = 1'', language = ''javascript'', source = Snippet, githubRepo = None\<rparr>,
        query := ''why?''\<rparr>)
    = (initial_client\<lparr>codeData :=
          \<lparr>code = ''x = 1'', language = ''javascript'', source = Snippet, githubRepo = None\<rparr>,
        query := ''why?'', loading := True\<rparr>,
       Some \<lparr>req_source = Snippet, req_technology = ''javascript'', code_snippet = ''x = 1'',
             github_repo = None, req_query = ''why?'', response_source_preference = ''both''\<rparr>)
   \<and> (\<exists>sys. run [LanguageChange ''javascript'', CodeChange ''x = 1'', QueryChange ''why?'',
                  Submit 10] initial_system = Some sys
          \<and> in_flight sys \<noteq> []
          \<and> list_all (\<lambda>r. response_source_preference r = ''both'') (in_flight sys)
          \<and> map req_technology (in_flight sys) = [''javascript''])"
proof -
  let ?s = "initial_client\<lparr>codeData :=
          \<lparr>code = ''x = 1'', language = ''javascript'', source = Snippet, githubRepo = None\<rparr>,
        query := ''why?''\<rparr>"
  let ?q = "\<lparr>req_source = Snippet, req_technology = ''javascript'', code_snippet = ''x = 1'',
             github_repo = None, req_query = ''why?'', response_source_preference = ''both''\<rparr>"
  let ?sys = "\<lparr>ui = ?s\<lparr>loading := True\<rparr>, in_flight = [?q]\<rparr>"
  have b: "handleSubmit_begin 10 ?s = (?s\<lparr>loading := True\<rparr>, Some ?q)"
    by (simp add: handleSubmit_begin_def initial_client_def)
  have r: "run [LanguageChange ''javascript'', CodeChange ''x = 1'', QueryChange ''why?'',
                  Submit 10] initial_system = Some ?sys"
    by (simp add: step_def initial_system_def initial_client_def handleCodeChange_def
        handleLanguageChange_def handleQueryChange_def submit_disabled_def handleSubmit_begin_def)
  from submitted_request_asks_both
    [of 10 ?s "?s\<lparr>loading := True\<rparr>" ?q
      "[LanguageChange ''javascript'', CodeChange ''x = 1'', QueryChange ''why?'', Submit 10]" ?sys]
    b r
  have "response_source_preference ?q = ''both''"
    and "\<forall>r \<in> set (in_flight ?sys). response_source_preference r = ''both''"
    by blast+
  then have "in_flight ?sys \<noteq> []
      \<and> list_all (\<lambda>r. response_source_preference r = ''both'') (in_flight ?sys)
      \<and> map req_technology (in_flight ?sys) = [''javascript'']"
    by (simp add: list_all_iff)
  with r have "\<exists>sys. run [LanguageChange ''javascript'', CodeChange ''x = 1'', QueryChange ''why?'',
                  Submit 10] initial_system = Some sys
          \<and> in_flight sys \<noteq> []
          \<and> list_all (\<lambda>r. response_source_preference r = ''both'') (in_flight sys)
          \<and> map req_technology (in_flight sys) = [''javascript'']"
    by (intro exI [of _ ?sys]) simp
  with b show ?thesis
    by simp
qed

section \<open>Properties of the GitHub URL handler\<close>

lemma path_parts_widgets: "path_parts ''/acme/widgets'' = [''acme'', ''widgets'']"
  by (simp add: path_parts_def)

lemma path_parts_widgets_tree:
  "path_parts ''/acme/widgets/tree/dev/src/lib'' = [''acme'', ''widgets'', ''tree'', ''dev'', ''src'', ''lib'']"
  by (simp add: path_parts_def)

lemma handleGithubSubmit_accept:
  assumes "URL (githubUrl p) = Some u" and "hostname u = ''github.com''"
    and "2 \<le> length (path_parts (pathname u))"
  shows "handleGithubSubmit URL p s =
     github_loaded p s
       \<lparr>owner = path_parts (pathname u) ! 0,
        repo = path_parts (pathname u) ! 1,
        branch = (if length (path_parts (pathname u)) > 3 \<and> path_parts (pathname u) ! 2 = ''tree''
                  then path_parts (pathname u) ! 3 else ''main''),
        path = (if length (path_parts (pathname u)) > 4 \<and> path_parts (pathname u) ! 2 = ''tree''
                then Some (join_str ''/'' (drop 4 (path_parts (pathname u)))) else None)\<rparr>"
  using assms
  by (simp add: handleGithubSubmit_def github_loaded_def handleSourceChange_def Let_def)

lemma handleGithubSubmit_reject:
  assumes "URL (githubUrl p) = None
     \<or> (\<exists>u. URL (githubUrl p) = Some u
            \<and> (hostname u \<noteq> ''github.com'' \<or> length (path_parts (pathname u)) < 2))"
  shows "\<exists>msg. handleGithubSubmit URL p s = (p, s, [msg])"
  using assms
  by (auto simp: handleGithubSubmit_def Let_def)

text \<open>
  Claim C1. Whatever the platform's \<^verbatim>\<open>URL\<close> constructor is: when it reads the
  typed string as host \<^verbatim>\<open>github.com\<close> with path \<^verbatim>\<open>/acme/widgets\<close>, the handler
  loads the reference acme, widgets, branch main, no path; with path
  \<^verbatim>\<open>/acme/widgets/tree/dev/src/lib\<close> it loads acme, widgets, branch dev, path
  \<^verbatim>\<open>src/lib\<close>. When the constructor throws, or the host is not \<^verbatim>\<open>github.com\<close>, or the
  path has fewer than two non-empty segments, the handler shows one alert and changes
  neither the panel nor the page. When the host is \<^verbatim>\<open>github.com\<close>, the path has two
  segments or more and the third one is not \<^verbatim>\<open>tree\<close>, the branch is main and there is
  no path.
\<close>

theorem handleGithubSubmit_parses:
  "(URL (githubUrl p) = Some \<lparr>hostname = ''github.com'', pathname = ''/acme/widgets''\<rparr> \<longrightarrow>
      handleGithubSubmit URL p s =
        github_loaded p s \<lparr>owner = ''acme'', repo = ''widgets'', branch = ''main'', path = None\<rparr>)
   \<and> (URL (githubUrl p) =
         Some \<lparr>hostname = ''github.com'', pathname = ''/acme/widgets/tree/dev/src/lib''\<rparr> \<longrightarrow>
      handleGithubSubmit URL p s =
        github_loaded p s
          \<lparr>owner = ''acme'', repo = ''widgets'', branch = ''dev'', path = Some ''src/lib''\<rparr>)
   \<and> (URL (githubUrl p) = None
        \<or> (\<exists>u. URL (githubUrl p) = Some u
               \<and> (hostname u \<noteq> ''github.com'' \<or> length (path_parts (pathname u)) < 2)) \<longrightarrow>
      (\<exists>msg. handleGithubSubmit URL p s = (p, s, [msg])))
   \<and> (\<forall>u. URL (githubUrl p) = Some u \<and> hostname u = ''github.com''
            \<and> 2 \<le> length (path_parts (pathname u))
            \<and> \<not> (2 < length (path_parts (pathname u)) \<and> path_parts (pathname u) ! 2 = ''tree'') \<longrightarrow>
      handleGithubSubmit URL p s =
        github_loaded p s
          \<lparr>owner = path_parts (pathname u) ! 0, repo = path_parts (pathname u) ! 1,
           branch = ''main'', path = None\<rparr>)"
proof (intro conjI impI allI)
  assume "URL (githubUrl p) = Some \<lparr>hostname = ''github.com'', pathname = ''/acme/widgets''\<rparr>"
  then show "handleGithubSubmit URL p s =
        github_loaded p s \<lparr>owner = ''acme'', repo = ''widgets'', branch = ''main'', path = None\<rparr>"
    using handleGithubSubmit_accept
      [of URL p "\<lparr>hostname = ''github.com'', pathname = ''/acme/widgets''\<rparr>" s]
    by (simp add: path_parts_widgets)
next
  assume "URL (githubUrl p) =
         Some \<lparr>hostname = ''github.com'', pathname = ''/acme/widgets/tree/dev/src/lib''\<rparr>"
  then show "handleGithubSubmit URL p s =
        github_loaded p s
          \<lparr>owner = ''acme'', repo = ''widgets'', branch = ''dev'', path = Some ''src/lib''\<rparr>"
    using handleGithubSubmit_accept
      [of URL p "\<lparr>hostname = ''github.com'', pathname = ''/acme/widgets/tree/dev/src/lib''\<rparr>" s]
    by (simp add: path_parts_widgets_tree)
next
  assume "URL (githubUrl p) = None
        \<or> (\<exists>u. URL (githubUrl p) = Some u
               \<and> (hostname u \<noteq> ''github.com'' \<or> length (path_parts (pathname u)) < 2))"
  then show "\<exists>msg. handleGithubSubmit URL p s = (p, s, [msg])"
    by (rule handleGithubSubmit_reject)
next
  fix u
  assume a: "URL (githubUrl p) = Some u \<and> hostname u = ''github.com''
            \<and> 2 \<le> length (path_parts (pathname u))
            \<and> \<not> (2 < length (path_parts (pathname u)) \<and> path_parts (pathname u) ! 2 = ''tree'')"
  then have "handleGithubSubmit URL p s =
     github_loaded p s
       \<lparr>owner = path_parts (pathname u) ! 0,
        repo = path_parts (pathname u) ! 1,
        branch = (if length (path_parts (pathname u)) > 3 \<and> path_parts (pathname u) ! 2 = ''tree''
                  then path_parts (pathname u) ! 3 else ''main''),
        path = (if length (path_parts (pathname u)) > 4 \<and> path_parts (pathname u) ! 2 = ''tree''
                then Some (join_str ''/'' (drop 4 (path_parts (pathname u)))) else None)\<rparr>"
    using handleGithubSubmit_accept [of URL p u s] by blast
  with a show "handleGithubSubmit URL p s =
        github_loaded p s
          \<lparr>owner = path_parts (pathname u) ! 0, repo = path_parts (pathname u) ! 1,
           branch = ''main'', path = None\<rparr>"
    by auto
qed

theorem handleGithubSubmit_parses_witness:
  "handleGithubSubmit URL_examples
      \<lparr>githubUrl = ''https://github.com/acme/widgets'', showGithubInput = True\<rparr> initial_client
    = (\<lparr>githubUrl = ''https://github.com/acme/widgets'', showGithubInput = False\<rparr>,
       initial_client\<lparr>codeData :=
         \<lparr>code = [], language = ''python'', source = Github,
          githubRepo = Some \<lparr>owner = ''acme'', repo = ''widgets'', branch = ''main'', path = None\<rparr>\<rparr>\<rparr>,
       [])
   \<and> handleGithubSubmit URL_examples
      \<lparr>githubUrl = ''https://github.com/acme/widgets/tree/dev/src/lib'', showGithubInput = True\<rparr>
      initial_client
    = (\<lparr>githubUrl = ''https://github.com/acme/widgets/tree/dev/src/lib'', showGithubInput = False\<rparr>,
       initial_client\<lparr>codeData :=
         \<lparr>code = [], language = ''python'', source = Github,
          githubRepo =
            Some \<lparr>owner = ''acme'', repo = ''widgets'', branch = ''dev'', path = Some ''src/lib''\<rparr>\<rparr>\<rparr>,
       [])
   \<and> (\<exists>msg. handleGithubSubmit URL_examples
          \<lparr>githubUrl = ''https://gitlab.com/acme/widgets'', showGithubInput = True\<rparr> initial_client
        = (\<lparr>githubUrl = ''https://gitlab.com/acme/widgets'', showGithubInput = True\<rparr>,
           initial_client, [msg]))
   \<and> (\<exists>msg. handleGithubSubmit URL_examples
          \<lparr>githubUrl = ''https://github.com/acme'', showGithubInput = True\<rparr> initial_client
        = (\<lparr>githubUrl = ''https://github.com/acme'', showGithubInput = True\<rparr>,
           initial_client, [msg]))
   \<and> (\<exists>msg. handleGithubSubmit URL_examples
          \<lparr>githubUrl = ''not a url'', showGithubInput = True\<rparr> initial_client
        = (\<lparr>githubUrl = ''not a url'', showGithubInput = True\<rparr>, initial_client, [msg]))
   \<and> handleGithubSubmit URL_examples
      \<lparr>githubUrl = ''https://github.com/acme/widgets/issues/7'', showGithubInput = True\<rparr>
      initial_client
    = (\<lparr>githubUrl = ''https://github.com/acme/widgets/issues/7'', showGithubInput = False\<rparr>,
       initial_client\<lparr>codeData :=
         \<lparr>code = [], language = ''python'', source = Github,
          githubRepo = Some \<lparr>owner = ''acme'', repo = ''widgets'', branch = ''main'', path = None\<rparr>\<rparr>\<rparr>,
       [])"
proof -
  let ?p = "\<lambda>g. \<lparr>githubUrl = g, showGithubInput = True\<rparr>"
  note inst = handleGithubSubmit_parses [of URL_examples _ initial_client]
  have one: "handleGithubSubmit URL_examples (?p ''https://github.com/acme/widgets'') initial_client =
      github_loaded (?p ''https://github.com/acme/widgets'') initial_client
        \<lparr>owner = ''acme'', repo = ''widgets'', branch = ''main'', path = None\<rparr>"
    using inst [of "?p ''https://github.com/acme/widgets''"]
    by (simp add: URL_examples_def)
  have two: "handleGithubSubmit URL_examples (?p ''https://github.com/acme/widgets/tree/dev/src/lib'')
        initial_client =
      github_loaded (?p ''https://github.com/acme/widgets/tree/dev/src/lib'') initial_client
        \<lparr>owner = ''acme'', repo = ''widgets'', branch = ''dev'', path = Some ''src/lib''\<rparr>"
    using inst [of "?p ''https://github.com/acme/widgets/tree/dev/src/lib''"]
    by (simp add: URL_examples_def)
  have three: "\<exists>msg. handleGithubSubmit URL_examples (?p ''https://gitlab.com/acme/widgets'')
        initial_client = (?p ''https://gitlab.com/acme/widgets'', initial_client, [msg])"
    using inst [of "?p ''https://gitlab.com/acme/widgets''"]
    by (simp add: URL_examples_def)
  have four: "\<exists>msg. handleGithubSubmit URL_examples (?p ''https://github.com/acme'')
        initial_client = (?p ''https://github.com/acme'', initial_client, [msg])"
    using inst [of "?p ''https://github.com/acme''"]
    by (simp add: URL_examples_def path_parts_def)
  have five: "\<exists>msg. handleGithubSubmit URL_examples (?p ''not a url'')
        initial_client = (?p ''not a url'', initial_client, [msg])"
    using inst [of "?p ''not a url''"]
    by (simp add: URL_examples_def)
  have parts: "path_parts ''/acme/widgets/issues/7'' = [''acme'', ''widgets'', ''issues'', ''7'']"
    by (simp add: path_parts_def)
  have six: "handleGithubSubmit URL_examples (?p ''https://github.com/acme/widgets/issues/7'')
        initial_client =
      github_loaded (?p ''https://github.com/acme/widgets/issues/7'') initial_client
        \<lparr>owner = ''acme'', repo = ''widgets'', branch = ''main'', path = None\<rparr>"
    using inst [of "?p ''https://github.com/acme/widgets/issues/7''"]
    by (simp add: URL_examples_def parts)
  show ?thesis
    using one two three four five six
    by (simp add: github_loaded_def initial_client_def)
qed

section \<open>Properties of the results panel\<close>

lemma renderSolution_None:
  "renderSolution r None type =
     EmptyState (''No '' @ type @ '' solution available'')
       ''Try modifying your query or checking another tab''"
  by (simp add: renderSolution_def)

lemma renderSolution_Some:
  "renderSolution r (Some sol) type =
     SolutionView
       (if type = ''official'' then ''Documentation Solution'' else ''Community Solution'')
       (answer sol)
       (case code_changes sol of
          None \<Rightarrow> None
        | Some c \<Rightarrow>
            if c = [] then None
            else Some (c, if technology r = [] then ''javascript'' else technology r))
       (references sol)"
  by (simp add: renderSolution_def renderCodeBlock_def split: option.split)

lemma ResultsPanel_loading: "ResultsPanel res True tab ca = LoadingView"
  by (simp add: ResultsPanel_def)

lemma ResultsPanel_community:
  "ResultsPanel (Some r) False ''community'' ca =
     ResultsView [SolutionPane (renderSolution r (community_solution r) ''community'')]
       (if execution_time r = 0 then ZeroText else ProcessedIn (execution_time r))"
  by (simp add: ResultsPanel_def)

lemma ResultsPanel_official:
  "ResultsPanel (Some r) False ''official'' ca =
     ResultsView [SolutionPane (renderSolution r (official_solution r) ''official'')]
       (if execution_time r = 0 then ZeroText else ProcessedIn (execution_time r))"
  by (simp add: ResultsPanel_def)

text \<open>
  Claim C5. For a response without a community solution and with an official one, shown
  by a panel that is not loading: the community tab shows the empty state
  \<^verbatim>\<open>No community solution available\<close>; the official tab shows the official solution
  (its heading, answer, code block in the language of the response, or in
  \<^verbatim>\<open>javascript\<close> when the response names none, and references), and shows the same
  whatever the community solution is; a loading panel shows the loading state, which
  is not what the community tab shows.
\<close>

theorem community_absent_empty_state:
  assumes "community_solution r = None" and "official_solution r = Some sol"
  shows "renderSolution r (community_solution r) ''community'' =
           EmptyState ''No community solution available''
             ''Try modifying your query or checking another tab''
         \<and> ResultsPanel (Some r) False ''community'' ca =
           ResultsView
             [SolutionPane
                (EmptyState ''No community solution available''
                   ''Try modifying your query or checking another tab'')]
             (if execution_time r = 0 then ZeroText else ProcessedIn (execution_time r))
         \<and> ResultsPanel (Some r) False ''official'' ca =
           ResultsView
             [SolutionPane
                (SolutionView ''Documentation Solution'' (answer sol)
                   (case code_changes sol of
                      None \<Rightarrow> None
                    | Some c \<Rightarrow>
                        if c = [] then None
                        else Some (c, if technology r = [] then ''javascript'' else technology r))
                   (references sol))]
             (if execution_time r = 0 then ZeroText else ProcessedIn (execution_time r))
         \<and> ResultsPanel (Some (r\<lparr>community_solution := other\<rparr>)) False ''official'' ca =
           ResultsPanel (Some r) False ''official'' ca
         \<and> ResultsPanel res True tab ca' = LoadingView
         \<and> ResultsPanel (Some r) False ''community'' ca \<noteq> ResultsPanel res True tab ca'"
proof -
  have empty: "renderSolution r (community_solution r) ''community'' =
           EmptyState ''No community solution available''
             ''Try modifying your query or checking another tab''"
    using assms(1) by (simp add: renderSolution_None)
  have official: "renderSolution r (official_solution r) ''official'' =
      SolutionView ''Documentation Solution'' (answer sol)
        (case code_changes sol of
           None \<Rightarrow> None
         | Some c \<Rightarrow>
             if c = [] then None
             else Some (c, if technology r = [] then ''javascript'' else technology r))
        (references sol)"
    using assms(2) by (simp add: renderSolution_Some)
  have same: "renderSolution (r\<lparr>community_solution := other\<rparr>) (Some sol) ''official'' =
      renderSolution r (Some sol) ''official''"
    by (simp add: renderSolution_Some split: option.split)
  have indep: "ResultsPanel (Some (r\<lparr>community_solution := other\<rparr>)) False ''official'' ca =
           ResultsPanel (Some r) False ''official'' ca"
    using assms(2) same by (simp add: ResultsPanel_official)
  show ?thesis
    using empty official indep
    by (simp add: ResultsPanel_community ResultsPanel_official ResultsPanel_loading)
qed

theorem community_absent_empty_state_witness:
  "ResultsPanel (Some example_response) False ''community'' None =
     ResultsView
       [SolutionPane
          (EmptyState ''No community solution available''
             ''Try modifying your query or checking another tab'')]
       (ProcessedIn 2)
   \<and> ResultsPanel (Some example_response) False ''official'' None =
     ResultsView
       [SolutionPane
          (SolutionView ''Documentation Solution'' ''Use a list comprehension.''
             (Some (''ys = [f(x) for x in xs]'', ''python''))
             [\<lparr>title = ''The Python Tutorial'', description = None,
               url = Some ''https://docs.python.org/3/tutorial/''\<rparr>])]
       (ProcessedIn 2)
   \<and> ResultsPanel (Some example_response) True ''community'' None = LoadingView"
proof -
  let ?sol = "\<lparr>answer = ''Use a list comprehension.'', code_changes = Some ''ys = [f(x) for x in xs]'',
              references = [\<lparr>title = ''The Python Tutorial'', description = None,
                             url = Some ''https://docs.python.org/3/tutorial/''\<rparr>]\<rparr>"
  have c: "community_solution example_response = None"
    by (simp add: example_response_def)
  have "official_solution example_response = Some ?sol"
    by (simp add: example_response_def)
  from community_absent_empty_state
    [OF c this, where ca = None and res = "Some example_response" and tab = "''community''"]
  show ?thesis
    by (simp add: example_response_def)
qed

end
